theory Spec2Isabelle
  imports Main "HOL-Library.Word"
begin

section \<open>Strings and numbers as JavaScript renders them\<close>

text \<open>
  The fixed texts of the program (messages, ids, class names, MIME types) are HOL
  strings. \<open>String.prototype.includes\<close> is the test for a contiguous occurrence.
\<close>

fun starts_with :: "string \<Rightarrow> string \<Rightarrow> bool" where
  "starts_with s [] = True"
| "starts_with [] (c # p) = False"
| "starts_with (d # s) (c # p) = (d = c \<and> starts_with s p)"

fun includes_str :: "string \<Rightarrow> string \<Rightarrow> bool" where
  "includes_str [] p = (p = [])"
| "includes_str (d # s) p = (starts_with (d # s) p \<or> includes_str s p)"

text \<open>
  What the user types is a JavaScript string as it is: a list of UTF-16 code units.
  \<open>String.prototype.trim\<close> removes the white space and the line terminators of
  ECMAScript at both ends: TAB, LF, VT, FF, CR, the space, the no-break space U+00A0,
  U+1680, U+2000 to U+200A, the line and paragraph separators U+2028 and U+2029,
  U+202F, U+205F, U+3000 and the byte order mark U+FEFF. Each is one code unit.
\<close>

type_synonym code_unit = "16 word"

type_synonym js_text = "code_unit list"

definition is_space :: "code_unit \<Rightarrow> bool" where
  "is_space c =
     (c \<in> set [0x0009, 0x000A, 0x000B, 0x000C, 0x000D, 0x0020, 0x00A0, 0x1680,
                0x2028, 0x2029, 0x202F, 0x205F, 0x3000, 0xFEFF] \<or>
      (0x2000 \<le> c \<and> c \<le> 0x200A))"

definition trim :: "js_text \<Rightarrow> js_text" where
  "trim s = rev (dropWhile is_space (rev (dropWhile is_space s)))"

text \<open>The code units of a text of ASCII characters.\<close>

definition utf16 :: "string \<Rightarrow> js_text" where
  "utf16 s = map (\<lambda>c. of_nat (of_char c)) s"

text \<open>
  A \<open>number\<close> that is an integer is modelled by that integer. The integers that are
  Number values are those that binary64 holds exactly: \<open>round_double\<close> is the Number
  value of a non-negative integer (round to nearest, ties to even, 53 significant
  bits), and a Number lies below \<open>2 ^ 1024\<close>. Numbers with a fraction, NaN and the
  infinities are not modelled.
\<close>

definition digit_char :: "nat \<Rightarrow> char" where
  "digit_char d = ''0123456789'' ! d"

fun show_nat :: "nat \<Rightarrow> string" where
  "show_nat n =
     (if n < 10 then [digit_char n] else show_nat (n div 10) @ [digit_char (n mod 10)])"

declare show_nat.simps [simp del]

fun bit_length :: "nat \<Rightarrow> nat" where
  "bit_length n = (if n = 0 then 0 else Suc (bit_length (n div 2)))"

declare bit_length.simps [simp del]

definition round_double :: "nat \<Rightarrow> nat" where
  "round_double v =
     (let l = bit_length v
      in if l \<le> 53 then v
         else
           let u = 2 ^ (l - 53); q = v div u; r = v mod u
           in if 2 * r < u then q * u
              else if u < 2 * r then (q + 1) * u
              else if even q then q * u
              else (q + 1) * u)"


text \<open>
  Number-to-string conversion (ECMAScript \<open>Number::toString\<close>, radix 10) of a Number
  \<open>x\<close> that is a non-negative integer. It takes integers \<open>n\<close>, \<open>k\<close>, \<open>s\<close> with \<open>s\<close> of
  \<open>k\<close> digits, \<open>s * 10 ^ (n - k)\<close> of Number value \<open>x\<close> and \<open>k\<close> as small as possible,
  the \<open>s\<close> nearest to \<open>x\<close> of several and the even one of two. \<open>closest_short x k\<close> is
  that value \<open>s * 10 ^ (n - k)\<close> for a given \<open>k\<close>, if there is one: rounding is
  monotone, so it is the multiple of \<open>10 ^ (n - k)\<close> next below or next above \<open>x\<close>.
  With \<open>n \<le> 21\<close> the digits of \<open>s\<close> are printed, followed by \<open>n - k\<close> zeros; beyond, the
  first digit, a point before the others if there are any, \<open>e+\<close> and \<open>n - 1\<close>. Below
  \<open>2 ^ 53\<close> every integer is its own Number value and what is printed is its decimal
  numeral.
\<close>

definition closest_short :: "nat \<Rightarrow> nat \<Rightarrow> nat option" where
  "closest_short x k =
     (let p = 10 ^ (length (show_nat x) - k);
          v0 = (x div p) * p;
          v1 = v0 + p;
          ok0 = (round_double v0 = x);
          ok1 = (round_double v1 = x)
      in if ok0 \<and> ok1 then
           (if x - v0 < v1 - x then Some v0
            else if v1 - x < x - v0 then Some v1
            else if even (x div p) then Some v0
            else Some v1)
         else if ok0 then Some v0
         else if ok1 then Some v1
         else None)"

definition shortest :: "nat \<Rightarrow> nat" where
  "shortest x =
     (case List.find (\<lambda>v. v \<noteq> None) (map (closest_short x) [1..<Suc (length (show_nat x))]) of
        Some (Some v) \<Rightarrow> v
      | _ \<Rightarrow> x)"

definition number_to_string :: "nat \<Rightarrow> string" where
  "number_to_string x =
     (if x < 2 ^ 53 then show_nat x
      else
        let ds = show_nat (shortest x);
            n = length ds;
            sd = rev (dropWhile (\<lambda>c. c = CHR ''0'') (rev ds))
        in if n \<le> 21 then ds
           else (if length sd = 1 then sd else hd sd # CHR ''.'' # tl sd)
                @ ''e+'' @ show_nat (n - 1))"

definition show_int :: "int \<Rightarrow> string" where
  "show_int i =
     (if i < 0 then CHR ''-'' # number_to_string (nat (- i)) else number_to_string (nat i))"

text \<open>
  \<open>(p / q).toFixed(1)\<close> for a non-negative numerator \<open>p\<close> and a positive denominator
  \<open>q\<close>. From \<open>10 ^ 21\<close> on, \<open>toFixed\<close> is the number-to-string conversion, of a quotient
  that is an integer there. Below, ECMAScript takes the integer \<open>n\<close> for which
  \<open>n / 10 - p / q\<close> is closest to zero, the larger one of two, that is
  \<open>n = floor (10 * p / q + 1 / 2)\<close>, and prints the digits of \<open>n\<close> with a point before the
  last one. The two quotients of \<open>formatFileSize\<close> divide a Number by a power of two,
  which binary64 does exactly, so the value printed is the one of the exact quotient.
\<close>

definition toFixed1 :: "nat \<Rightarrow> nat \<Rightarrow> string" where
  "toFixed1 p q =
     (if 10 ^ 21 * q \<le> p then number_to_string (p div q)
      else
        let n = (20 * p + q) div (2 * q)
        in show_nat (n div 10) @ ''.'' @ show_nat (n mod 10))"







section \<open>The page: files, elements, application state\<close>

type_synonym byte = "8 word"

type_synonym node = string

text \<open>
  An element of the page is known by its id (\<open>getElement\<close> is \<open>document.getElementById\<close>).
  Writing \<open>textContent\<close> replaces the children by one text node, writing \<open>innerHTML\<close>
  replaces them by parsed markup: the two are one field. \<open>input_value\<close> is the \<open>value\<close>
  of an input element.
\<close>

datatype content = Text string | Html string

record element =
  classList :: "string set"
  contents :: content
  disabled :: bool
  input_value :: js_text

text \<open>
  A \<open>File\<close>: its \<open>name\<close>, \<open>type\<close> and \<open>size\<close>, and the outcome of \<open>file.arrayBuffer()\<close>,
  which is the bytes or a rejection.
\<close>

record js_file =
  file_name :: string
  file_type :: string
  file_size :: nat
  arrayBuffer :: "string + byte list"

record SignPdfRequest =
  pdf_data :: "byte list"
  name :: js_text
  extra :: js_text

record signature_info =
  signer_name :: string
  timestamp :: string
  info_extra :: string
  signature :: string

record SignPdfResponse =
  signed_pdf :: "byte list"
  sign_signature_info :: signature_info

record VerifyPdfResponse =
  is_signed :: bool
  signature_info :: "signature_info option"
  message :: string

text \<open>The \<open>state\<close> object of main.ts.\<close>

record app_state =
  hasKey :: bool
  currentPublicKey :: string
  selectedFile :: "js_file option"
  signedPdfData :: "byte list option"
  verifySelectedFile :: "js_file option"
  currentTab :: string

text \<open>The commands sent to the backend through \<open>invoke\<close>.\<close>

datatype command =
    Has_key
  | Get_public_key
  | Generate_keypair
  | Import_key string string
  | Export_key
  | Sign_pdf SignPdfRequest
  | Verify_pdf "byte list"

text \<open>
  Everything a handler can read or write: the \<open>state\<close> object, the elements of the
  page, the parent of an element and the result of
  \<open>querySelector(".drop-zone-content")\<close> on it (the page's markup is not part of the
  sources, so both are fields of the world), the commands invoked so far, the pending
  \<open>setTimeout\<close> calls (delay and the overlay \<open>hideModal\<close> will hide) and the elements
  scrolled into view.
\<close>

record world =
  state :: app_state
  elems :: "node \<Rightarrow> element"
  parentElement :: "node \<Rightarrow> node option"
  dropZoneContent :: "node \<Rightarrow> node option"
  invoked :: "command list"
  timers :: "(nat \<times> node) list"
  scrolledIntoView :: "node list"

definition upd_elem :: "node \<Rightarrow> (element \<Rightarrow> element) \<Rightarrow> world \<Rightarrow> world" where
  "upd_elem n f w = w\<lparr>elems := (elems w)(n := f (elems w n))\<rparr>"

definition classList_add :: "node \<Rightarrow> string \<Rightarrow> world \<Rightarrow> world" where
  "classList_add n c = upd_elem n (\<lambda>e. e\<lparr>classList := insert c (classList e)\<rparr>)"

definition classList_remove :: "node \<Rightarrow> string \<Rightarrow> world \<Rightarrow> world" where
  "classList_remove n c = upd_elem n (\<lambda>e. e\<lparr>classList := classList e - {c}\<rparr>)"

definition classList_toggle :: "node \<Rightarrow> string \<Rightarrow> bool \<Rightarrow> world \<Rightarrow> world" where
  "classList_toggle n c force = (if force then classList_add n c else classList_remove n c)"

definition set_textContent :: "node \<Rightarrow> string \<Rightarrow> world \<Rightarrow> world" where
  "set_textContent n t = upd_elem n (\<lambda>e. e\<lparr>contents := Text t\<rparr>)"

definition set_innerHTML :: "node \<Rightarrow> string \<Rightarrow> world \<Rightarrow> world" where
  "set_innerHTML n h = upd_elem n (\<lambda>e. e\<lparr>contents := Html h\<rparr>)"

definition set_disabled :: "node \<Rightarrow> bool \<Rightarrow> world \<Rightarrow> world" where
  "set_disabled n b = upd_elem n (\<lambda>e. e\<lparr>disabled := b\<rparr>)"

text \<open>
  Reading \<open>textContent\<close> of markup gives its text, the tags left out (for markup whose
  every \<open><\<close> opens a tag and that has no character references). Only \<open>setButtonLoading\<close>
  with \<open>loading\<close> false reads it, and no handler calls it so.
\<close>

fun strip_tags :: "bool \<Rightarrow> string \<Rightarrow> string" where
  "strip_tags in_tag [] = []"
| "strip_tags in_tag (c # cs) =
     (if in_tag then strip_tags (c \<noteq> CHR ''>'') cs
      else if c = CHR ''<'' then strip_tags True cs
      else c # strip_tags False cs)"

definition textContent :: "element \<Rightarrow> string" where
  "textContent e = (case contents e of Text t \<Rightarrow> t | Html h \<Rightarrow> strip_tags False h)"

definition invoke :: "command \<Rightarrow> world \<Rightarrow> world" where
  "invoke c w = w\<lparr>invoked := invoked w @ [c]\<rparr>"

section \<open>utils.ts\<close>

text \<open>\<open>formatFileSize\<close> on a number that is an integer, as \<open>File.size\<close> is.\<close>

definition formatFileSize :: "int \<Rightarrow> string" where
  "formatFileSize bytes =
     (if bytes < 1024 then show_int bytes @ '' B''
      else if bytes < 1024 * 1024 then toFixed1 (nat bytes) 1024 @ '' KB''
      else toFixed1 (nat bytes) (1024 * 1024) @ '' MB'')"

definition showModal :: "node \<Rightarrow> node \<Rightarrow> node \<Rightarrow> string \<Rightarrow> string \<Rightarrow> world \<Rightarrow> world" where
  "showModal modalOverlay modalTitle modalContent title content w =
     classList_remove modalOverlay ''hidden''
       (set_innerHTML modalContent content (set_textContent modalTitle title w))"

definition hideModal :: "node \<Rightarrow> world \<Rightarrow> world" where
  "hideModal modalOverlay = classList_add modalOverlay ''hidden''"

definition setButtonLoading :: "node \<Rightarrow> bool \<Rightarrow> string \<Rightarrow> world \<Rightarrow> world" where
  \<open>setButtonLoading button loading loadingText w =
     set_innerHTML button
       (if loading then ''<span class="loading"></span>'' @ loadingText
        else textContent (elems w button))
       (set_disabled button loading w)\<close>

definition resetButton :: "node \<Rightarrow> string \<Rightarrow> world \<Rightarrow> world" where
  "resetButton button originalText w =
     set_textContent button originalText (set_disabled button False w)"

definition toggleDropZoneContent :: "node \<Rightarrow> bool \<Rightarrow> world \<Rightarrow> world" where
  "toggleDropZoneContent dropZone showContent w =
     (case dropZoneContent w dropZone of
        None \<Rightarrow> w
      | Some content \<Rightarrow> classList_toggle content ''hidden'' (\<not> showContent) w)"

definition handleFileSelect ::
  "js_file \<Rightarrow> (js_file \<Rightarrow> world \<Rightarrow> world) \<Rightarrow> node option \<Rightarrow> node option \<Rightarrow> node option \<Rightarrow>
   world \<Rightarrow> world" where
  "handleFileSelect f onFileSelect onFileInfo fileNameEl fileSizeEl w =
     (if \<not> includes_str (file_type f) ''pdf'' then w
      else
        let w1 = onFileSelect f w;
            w2 = (case onFileInfo of None \<Rightarrow> w1 | Some n \<Rightarrow> classList_remove n ''hidden'' w1);
            w3 = (case fileNameEl of None \<Rightarrow> w2 | Some n \<Rightarrow> set_textContent n (file_name f) w2);
            w4 = (case fileSizeEl of None \<Rightarrow> w3
                  | Some n \<Rightarrow> set_textContent n (formatFileSize (int (file_size f))) w3);
            dropZone = (case onFileInfo of None \<Rightarrow> None | Some n \<Rightarrow> parentElement w4 n)
        in case dropZone of None \<Rightarrow> w4 | Some d \<Rightarrow> toggleDropZoneContent d False w4)"

text \<open>
  The listeners \<open>setupDropZone\<close> registers, each as the function of the world it runs
  when its event fires. \<open>files\<close> is \<open>e.dataTransfer?.files\<close> of a drop (\<open>None\<close> when there
  is no data transfer) and \<open>fileInput.files\<close> of a change. The click listener opens the
  file picker and writes nothing.
\<close>

definition on_dragover :: "node \<Rightarrow> world \<Rightarrow> world" where
  "on_dragover dropZone = classList_add dropZone ''drag-over''"

definition on_dragleave :: "node \<Rightarrow> world \<Rightarrow> world" where
  "on_dragleave dropZone = classList_remove dropZone ''drag-over''"

definition on_drop ::
  "node \<Rightarrow> (js_file \<Rightarrow> world \<Rightarrow> world) \<Rightarrow> node option \<Rightarrow> node option \<Rightarrow> node option \<Rightarrow>
   js_file list option \<Rightarrow> world \<Rightarrow> world" where
  "on_drop dropZone onFileSelect onFileInfo fileNameEl fileSizeEl files w =
     (let w1 = classList_remove dropZone ''drag-over'' w
      in case files of
           Some (f # fs) \<Rightarrow> handleFileSelect f onFileSelect onFileInfo fileNameEl fileSizeEl w1
         | _ \<Rightarrow> w1)"

definition on_change ::
  "(js_file \<Rightarrow> world \<Rightarrow> world) \<Rightarrow> node option \<Rightarrow> node option \<Rightarrow> node option \<Rightarrow>
   js_file list option \<Rightarrow> world \<Rightarrow> world" where
  "on_change onFileSelect onFileInfo fileNameEl fileSizeEl files w =
     (case files of
        Some (f # fs) \<Rightarrow> handleFileSelect f onFileSelect onFileInfo fileNameEl fileSizeEl w
      | _ \<Rightarrow> w)"

definition showTemporarySuccess ::
  "node \<Rightarrow> node \<Rightarrow> node \<Rightarrow> string \<Rightarrow> nat \<Rightarrow> world \<Rightarrow> world" where
  \<open>showTemporarySuccess modalOverlay modalTitle modalContent msg duration w =
     (let w1 = showModal modalOverlay modalTitle modalContent ''Success''
                 (''<p class="message success">'' @ msg @ ''</p>'') w
      in w1\<lparr>timers := timers w1 @ [(duration, modalOverlay)]\<rparr>)\<close>

definition showError :: "node \<Rightarrow> node \<Rightarrow> node \<Rightarrow> string \<Rightarrow> world \<Rightarrow> world" where
  \<open>showError modalOverlay modalTitle modalContent msg =
     showModal modalOverlay modalTitle modalContent ''Error''
       (''<p class="message error">'' @ msg @ ''</p>'')\<close>

section \<open>main.ts\<close>

text \<open>The statements of a function body, run in order.\<close>

definition seq :: "(world \<Rightarrow> world) list \<Rightarrow> world \<Rightarrow> world" where
  "seq fs w = foldl (\<lambda>v f. f v) w fs"

definition scrollIntoView :: "node \<Rightarrow> world \<Rightarrow> world" where
  "scrollIntoView n w = w\<lparr>scrolledIntoView := scrolledIntoView w @ [n]\<rparr>"

definition upd_state :: "(app_state \<Rightarrow> app_state) \<Rightarrow> world \<Rightarrow> world" where
  "upd_state f w = w\<lparr>state := f (state w)\<rparr>"

text \<open>The members of the \<open>elements\<close> object, each the id it is looked up by.\<close>

abbreviation btnGenerateKey :: node where "btnGenerateKey \<equiv> ''btn-generate-key''"
abbreviation btnImportKey :: node where "btnImportKey \<equiv> ''btn-import-key''"
abbreviation btnExportKey :: node where "btnExportKey \<equiv> ''btn-export-key''"
abbreviation keySection :: node where "keySection \<equiv> ''key-section''"
abbreviation publicKeyContent :: node where "publicKeyContent \<equiv> ''public-key-content''"
abbreviation noKeyMessage :: node where "noKeyMessage \<equiv> ''no-key-message''"
abbreviation signForm :: node where "signForm \<equiv> ''sign-form''"
abbreviation signerNameInput :: node where "signerNameInput \<equiv> ''signer-name''"
abbreviation extraTextInput :: node where "extraTextInput \<equiv> ''extra-text''"
abbreviation dropZone_el :: node where "dropZone_el \<equiv> ''drop-zone''"
abbreviation fileInfo :: node where "fileInfo \<equiv> ''file-info''"
abbreviation fileName :: node where "fileName \<equiv> ''file-name''"
abbreviation fileSize :: node where "fileSize \<equiv> ''file-size''"
abbreviation btnSign :: node where "btnSign \<equiv> ''btn-sign''"
abbreviation resultSection :: node where "resultSection \<equiv> ''result-section''"
abbreviation resultName :: node where "resultName \<equiv> ''result-name''"
abbreviation resultTimestamp :: node where "resultTimestamp \<equiv> ''result-timestamp''"
abbreviation resultExtra :: node where "resultExtra \<equiv> ''result-extra''"
abbreviation resultSignature :: node where "resultSignature \<equiv> ''result-signature''"
abbreviation modalOverlay :: node where "modalOverlay \<equiv> ''modal-overlay''"
abbreviation modalTitle :: node where "modalTitle \<equiv> ''modal-title''"
abbreviation modalContent :: node where "modalContent \<equiv> ''modal-content''"
abbreviation verifyDropZone :: node where "verifyDropZone \<equiv> ''verify-drop-zone''"
abbreviation verifyFileInfo :: node where "verifyFileInfo \<equiv> ''verify-file-info''"
abbreviation verifyFileName :: node where "verifyFileName \<equiv> ''verify-file-name''"
abbreviation verifyFileSize :: node where "verifyFileSize \<equiv> ''verify-file-size''"
abbreviation btnVerify :: node where "btnVerify \<equiv> ''btn-verify''"
abbreviation verifyResult :: node where "verifyResult \<equiv> ''verify-result''"
abbreviation verifySuccess :: node where "verifySuccess \<equiv> ''verify-success''"
abbreviation verifyError :: node where "verifyError \<equiv> ''verify-error''"
abbreviation verifyMessage :: node where "verifyMessage \<equiv> ''verify-message''"
abbreviation verifyErrorMessage :: node where "verifyErrorMessage \<equiv> ''verify-error-message''"
abbreviation verifyDetails :: node where "verifyDetails \<equiv> ''verify-details''"
abbreviation verifyName :: node where "verifyName \<equiv> ''verify-name''"
abbreviation verifyTimestamp :: node where "verifyTimestamp \<equiv> ''verify-timestamp''"
abbreviation verifyExtra :: node where "verifyExtra \<equiv> ''verify-extra''"
abbreviation verifySignature :: node where "verifySignature \<equiv> ''verify-signature''"

definition updateKeyUI :: "bool \<Rightarrow> world \<Rightarrow> world" where
  "updateKeyUI hasKey' =
     seq [classList_toggle btnGenerateKey ''hidden'' hasKey',
          classList_toggle btnImportKey ''hidden'' hasKey',
          classList_toggle btnExportKey ''hidden'' (\<not> hasKey'),
          classList_toggle keySection ''hidden'' (\<not> hasKey'),
          (\<lambda>w. set_textContent publicKeyContent
                 (if hasKey' then currentPublicKey (state w) else ''No key loaded'') w),
          classList_toggle noKeyMessage ''hidden'' hasKey',
          classList_toggle signForm ''hidden'' (\<not> hasKey')]"

definition updateSignButton :: "world \<Rightarrow> world" where
  "updateSignButton w =
     set_disabled btnSign
       (selectedFile (state w) = None \<or> trim (input_value (elems w signerNameInput)) = []) w"

definition updateVerifyButton :: "world \<Rightarrow> world" where
  "updateVerifyButton w = set_disabled btnVerify (verifySelectedFile (state w) = None) w"

definition displaySignResult :: "SignPdfResponse \<Rightarrow> world \<Rightarrow> world" where
  "displaySignResult response =
     (let info = sign_signature_info response
      in seq [set_textContent resultName (signer_name info),
              set_textContent resultTimestamp (timestamp info),
              set_textContent resultExtra
                (if info_extra info = [] then ''(none)'' else info_extra info),
              set_textContent resultSignature (signature info),
              classList_remove resultSection ''hidden'',
              scrollIntoView resultSection])"

text \<open>
  A handler that awaits \<open>invoke\<close> takes the settlement of that promise as an argument:
  \<open>Inr\<close> the value it resolves to, \<open>Inl\<close> the reason it rejects with, as the text
  \<open>${error}\<close> prints. A handler runs to its end before another one starts.
\<close>

definition generateKeypair :: "string + string \<Rightarrow> world \<Rightarrow> world" where
  \<open>generateKeypair outcome =
     seq [showModal modalOverlay modalTitle modalContent ''Generate Keypair''
            ''<p class="message info">Generating RSA keypair...</p>'',
          invoke Generate_keypair,
          (case outcome of
             Inr publicKey \<Rightarrow>
               seq [upd_state (\<lambda>s. s\<lparr>currentPublicKey := publicKey\<rparr>),
                    upd_state (\<lambda>s. s\<lparr>hasKey := True\<rparr>),
                    hideModal modalOverlay,
                    updateKeyUI True,
                    showTemporarySuccess modalOverlay modalTitle modalContent
                      ''Keypair generated successfully!'' 2000]
           | Inl error \<Rightarrow>
               seq [hideModal modalOverlay,
                    showError modalOverlay modalTitle modalContent
                      (''Failed to generate keypair: '' @ error)])]\<close>

definition importKey :: "string \<Rightarrow> string \<Rightarrow> string + string \<Rightarrow> world \<Rightarrow> world" where
  "importKey privateKeyPem publicKeyPem outcome =
     seq [invoke (Import_key privateKeyPem publicKeyPem),
          (case outcome of
             Inr publicKey \<Rightarrow>
               seq [upd_state (\<lambda>s. s\<lparr>currentPublicKey := publicKey\<rparr>),
                    upd_state (\<lambda>s. s\<lparr>hasKey := True\<rparr>),
                    hideModal modalOverlay,
                    updateKeyUI True,
                    showTemporarySuccess modalOverlay modalTitle modalContent
                      ''Key imported successfully!'' 2000]
           | Inl error \<Rightarrow>
               seq [hideModal modalOverlay,
                    showError modalOverlay modalTitle modalContent
                      (''Failed to import key: '' @ error)])]"

text \<open>
  \<open>signPdf\<close>. \<open>backend\<close> is the \<open>sign_pdf\<close> command: what \<open>invoke\<close> settles to for a
  request. The \<open>catch\<close> block is \<open>sign_failed\<close>. Past the guard a file is selected, so
  \<open>the\<close> reads it.
\<close>

definition sign_failed :: "string \<Rightarrow> world \<Rightarrow> world" where
  "sign_failed error =
     seq [showError modalOverlay modalTitle modalContent (''Failed to sign PDF: '' @ error),
          resetButton btnSign ''Sign PDF'']"

definition signPdf :: "(SignPdfRequest \<Rightarrow> string + SignPdfResponse) \<Rightarrow> world \<Rightarrow> world" where
  "signPdf backend w =
     (if selectedFile (state w) = None \<or> trim (input_value (elems w signerNameInput)) = [] then
        showError modalOverlay modalTitle modalContent
          ''Please enter your name and select a PDF file.'' w
      else
        let w1 = setButtonLoading btnSign True ''Signing...'' w
        in case arrayBuffer (the (selectedFile (state w1))) of
             Inl error \<Rightarrow> sign_failed error w1
           | Inr pdfBytes \<Rightarrow>
               let request = \<lparr>pdf_data = pdfBytes,
                              name = trim (input_value (elems w1 signerNameInput)),
                              extra = trim (input_value (elems w1 extraTextInput))\<rparr>;
                   w2 = invoke (Sign_pdf request) w1
               in case backend request of
                    Inl error \<Rightarrow> sign_failed error w2
                  | Inr response \<Rightarrow>
                      seq [upd_state (\<lambda>s. s\<lparr>signedPdfData := Some (signed_pdf response)\<rparr>),
                           displaySignResult response,
                           resetButton btnSign ''Sign PDF''] w2)"

text \<open>\<open>verifyPdf\<close>, with the \<open>verify_pdf\<close> command as \<open>backend\<close>.\<close>

definition verify_failed :: "string \<Rightarrow> world \<Rightarrow> world" where
  "verify_failed error =
     seq [showError modalOverlay modalTitle modalContent (''Failed to verify PDF: '' @ error),
          resetButton btnVerify ''Verify PDF'']"

definition show_verification :: "VerifyPdfResponse \<Rightarrow> world \<Rightarrow> world" where
  "show_verification response =
     (case (is_signed response, signature_info response) of
        (True, Some info) \<Rightarrow>
          seq [classList_remove verifySuccess ''hidden'',
               classList_add verifyError ''hidden'',
               classList_remove verifyDetails ''hidden'',
               set_textContent verifyMessage (message response),
               set_textContent verifyName (signer_name info),
               set_textContent verifyTimestamp (timestamp info),
               set_textContent verifyExtra
                 (if info_extra info = [] then ''(none)'' else info_extra info),
               set_textContent verifySignature (signature info)]
      | _ \<Rightarrow>
          seq [classList_add verifySuccess ''hidden'',
               classList_remove verifyError ''hidden'',
               classList_add verifyDetails ''hidden'',
               set_textContent verifyErrorMessage (message response)])"

definition verifyPdf :: "(byte list \<Rightarrow> string + VerifyPdfResponse) \<Rightarrow> world \<Rightarrow> world" where
  "verifyPdf backend w =
     (case verifySelectedFile (state w) of
        None \<Rightarrow> w
      | Some f \<Rightarrow>
          let w1 = setButtonLoading btnVerify True ''Verifying...'' w
          in case arrayBuffer f of
               Inl error \<Rightarrow> verify_failed error w1
             | Inr pdfBytes \<Rightarrow>
                 let w2 = invoke (Verify_pdf pdfBytes) w1
                 in case backend pdfBytes of
                      Inl error \<Rightarrow> verify_failed error w2
                    | Inr response \<Rightarrow>
                        seq [classList_remove verifyResult ''hidden'',
                             show_verification response,
                             resetButton btnVerify ''Verify PDF'',
                             scrollIntoView verifyResult] w2)"

text \<open>The two drop zones of \<open>initDropZones\<close> and the callbacks they pass.\<close>

definition select_sign_file :: "js_file \<Rightarrow> world \<Rightarrow> world" where
  "select_sign_file f = seq [upd_state (\<lambda>s. s\<lparr>selectedFile := Some f\<rparr>), updateSignButton]"

definition select_verify_file :: "js_file \<Rightarrow> world \<Rightarrow> world" where
  "select_verify_file f =
     seq [upd_state (\<lambda>s. s\<lparr>verifySelectedFile := Some f\<rparr>), updateVerifyButton]"

definition sign_zone_drop :: "js_file list option \<Rightarrow> world \<Rightarrow> world" where
  "sign_zone_drop =
     on_drop dropZone_el select_sign_file (Some fileInfo) (Some fileName) (Some fileSize)"

definition sign_zone_change :: "js_file list option \<Rightarrow> world \<Rightarrow> world" where
  "sign_zone_change =
     on_change select_sign_file (Some fileInfo) (Some fileName) (Some fileSize)"

definition verify_zone_drop :: "js_file list option \<Rightarrow> world \<Rightarrow> world" where
  "verify_zone_drop =
     on_drop verifyDropZone select_verify_file
       (Some verifyFileInfo) (Some verifyFileName) (Some verifyFileSize)"

definition verify_zone_change :: "js_file list option \<Rightarrow> world \<Rightarrow> world" where
  "verify_zone_change =
     on_change select_verify_file
       (Some verifyFileInfo) (Some verifyFileName) (Some verifyFileSize)"

text \<open>
  An invocation of \<open>signPdf\<close> fails when the guard refuses it (no file selected, or a
  name that is empty once trimmed), when the file cannot be read, or when the
  \<open>sign_pdf\<close> command rejects.
\<close>

definition sign_fails :: "(SignPdfRequest \<Rightarrow> string + SignPdfResponse) \<Rightarrow> world \<Rightarrow> bool" where
  "sign_fails backend w =
     (case selectedFile (state w) of
        None \<Rightarrow> True
      | Some f \<Rightarrow>
          trim (input_value (elems w signerNameInput)) = [] \<or>
          (case arrayBuffer f of
             Inl error \<Rightarrow> True
           | Inr pdfBytes \<Rightarrow>
               isl (backend \<lparr>pdf_data = pdfBytes,
                             name = trim (input_value (elems w signerNameInput)),
                             extra = trim (input_value (elems w extraTextInput))\<rparr>)))"

section \<open>The signature engine, from its specification\<close>

text \<open>
  The commands behind \<open>invoke\<close> (the key store, \<open>sign_pdf\<close>, \<open>verify_pdf\<close>) are not among
  the sources. The definitions of this section follow the specification's sections 3,
  4.2, 4.4, 4.5 and 7 instead.
\<close>

text \<open>Modelled from the spec: the error taxonomy of section 7 (the backend's errors).\<close>

datatype engine_error =
    KeyGenerationError
  | MalformedKeyError
  | KeyMismatchError
  | NoKeyLoadedError
  | InvalidInputError
  | UnparsableDocumentError
  | CorruptSignatureLocationError

text \<open>
  Modelled from the spec: the Keypair of the backend's KeyStore, both keys as PEM text.
  The resident keypair is a \<open>Keypair option\<close>.
\<close>

record Keypair =
  publicKey :: string
  privateKey :: string

text \<open>
  Modelled from the spec: the SignatureRecord the backend embeds (section 3); \<open>timestamp\<close>
  and \<open>extra\<close> carry a prefix, the names being taken by the response of main.ts.
\<close>

record SignatureRecord =
  signerName :: string
  rec_timestamp :: string
  rec_extra :: "string option"
  signatureBytes :: "byte list"
  digestAlgorithm :: string
  signatureAlgorithm :: string

text \<open>Modelled from the spec: what the backend's \<open>sign\<close> returns (section 4.4, step 9).\<close>

record SignedDocument =
  signedPdfBytes :: "byte list"
  signatureInfo :: SignatureRecord

text \<open>Modelled from the spec: the VerificationResult of the backend's \<open>verify\<close> (section 4.5).\<close>

record VerificationResult =
  isSigned :: bool
  sig_record :: "SignatureRecord option"
  result_message :: string

text \<open>
  Modelled from the spec: what the specification names and leaves open in the backend,
  taken as parameters. The hash and its identifier; RSA signing with the private PEM,
  the signature check with the public PEM, and their identifier; whether a document has
  a recognizable structural trailer; the scan for the most recent signature record,
  which gives the byte offset where that record's incremental update begins and the
  record (\<open>None\<close> for a record that does not parse); and the bytes of the incremental
  update that carries a record and its watermark.
\<close>

record primitives =
  digest :: "byte list \<Rightarrow> byte list"
  digest_id :: string
  rsa_sign :: "string \<Rightarrow> byte list \<Rightarrow> byte list"
  rsa_check :: "string \<Rightarrow> byte list \<Rightarrow> byte list \<Rightarrow> bool"
  signature_id :: string
  has_trailer :: "byte list \<Rightarrow> bool"
  locate_record :: "byte list \<Rightarrow> (nat \<times> SignatureRecord option) option"
  incremental_update :: "SignatureRecord \<Rightarrow> byte list"

text \<open>
  Modelled from the spec: the backend's Canonicalizer (section 4.2). Without a record
  the range is the whole document, with one it is everything before the offset where
  the most recent record's update begins.
\<close>

definition computeRange :: "primitives \<Rightarrow> byte list \<Rightarrow> engine_error + byte list" where
  "computeRange pr pdfBytes =
     (if \<not> has_trailer pr pdfBytes then Inl UnparsableDocumentError
      else case locate_record pr pdfBytes of
             None \<Rightarrow> Inr pdfBytes
           | Some (offset, r) \<Rightarrow>
               if length pdfBytes < offset then Inl CorruptSignatureLocationError
               else Inr (take offset pdfBytes))"

text \<open>
  Modelled from the spec: steps 4 to 7 of the backend's \<open>sign\<close> (section 4.4), the record
  built from the digest of the canonical range, its signature and the instant \<open>now\<close>.
\<close>

definition new_record ::
  "primitives \<Rightarrow> Keypair \<Rightarrow> string \<Rightarrow> byte list \<Rightarrow> string \<Rightarrow> string option \<Rightarrow> SignatureRecord" where
  "new_record pr kp now canonical signerName' extra' =
     \<lparr>signerName = signerName', rec_timestamp = now, rec_extra = extra',
      signatureBytes = rsa_sign pr (privateKey kp) (digest pr canonical),
      digestAlgorithm = digest_id pr,
      signatureAlgorithm = signature_id pr\<rparr>"

text \<open>
  Modelled from the spec: the backend's \<open>sign\<close> (section 4.4). The new update is appended
  to the canonical range: a record the input already carries is replaced, as sections 3
  and 4.2 say of re-signing.
\<close>

definition sign ::
  "primitives \<Rightarrow> Keypair option \<Rightarrow> string \<Rightarrow> byte list \<Rightarrow> string \<Rightarrow> string option \<Rightarrow>
   engine_error + SignedDocument" where
  "sign pr keyStore now pdfBytes signerName' extra' =
     (case keyStore of
        None \<Rightarrow> Inl NoKeyLoadedError
      | Some kp \<Rightarrow>
          if signerName' = [] then Inl InvalidInputError
          else case computeRange pr pdfBytes of
                 Inl e \<Rightarrow> Inl e
               | Inr canonical \<Rightarrow>
                   let r = new_record pr kp now canonical signerName' extra'
                   in Inr \<lparr>signedPdfBytes = canonical @ incremental_update pr r,
                           signatureInfo = r\<rparr>)"

text \<open>
  Modelled from the spec: steps 5 to 7 of the backend's \<open>verify\<close> (section 4.5), the check
  of a record's signature against the resident public key.
\<close>

definition check_signature ::
  "primitives \<Rightarrow> Keypair option \<Rightarrow> byte list \<Rightarrow> SignatureRecord \<Rightarrow>
   engine_error + VerificationResult" where
  "check_signature pr keyStore canonical r =
     (case keyStore of
        None \<Rightarrow> Inl NoKeyLoadedError
      | Some kp \<Rightarrow>
          if rsa_check pr (publicKey kp) (digest pr canonical) (signatureBytes r) then
            Inr \<lparr>isSigned = True, sig_record = Some r, result_message = ''valid''\<rparr>
          else
            Inr \<lparr>isSigned = False, sig_record = Some r,
                 result_message = ''signature does not match content''\<rparr>)"

text \<open>Modelled from the spec: the backend's \<open>verify\<close> (section 4.5).\<close>

definition verify ::
  "primitives \<Rightarrow> Keypair option \<Rightarrow> byte list \<Rightarrow> engine_error + VerificationResult" where
  "verify pr keyStore pdfBytes =
     (case locate_record pr pdfBytes of
        None \<Rightarrow> Inr \<lparr>isSigned = False, sig_record = None, result_message = ''not signed''\<rparr>
      | Some (offset, None) \<Rightarrow>
          Inr \<lparr>isSigned = False, sig_record = None,
               result_message = ''signature record corrupt''\<rparr>
      | Some (offset, Some r) \<Rightarrow>
          if digestAlgorithm r \<noteq> digest_id pr \<or> signatureAlgorithm r \<noteq> signature_id pr then
            Inr \<lparr>isSigned = False, sig_record = None,
                 result_message = ''signature record corrupt''\<rparr>
          else case computeRange pr pdfBytes of
                 Inl e \<Rightarrow> Inl e
               | Inr canonical \<Rightarrow> check_signature pr keyStore canonical r)"

text \<open>
  Modelled from the spec: a valid PDF byte sequence is one the backend's Canonicalizer
  accepts: it has a recognizable trailer, and a record it declares lies within it.
\<close>

definition valid_pdf :: "primitives \<Rightarrow> byte list \<Rightarrow> bool" where
  "valid_pdf pr pdfBytes =
     (has_trailer pr pdfBytes \<and>
      (case locate_record pr pdfBytes of
         None \<Rightarrow> True
       | Some (offset, r) \<Rightarrow> offset \<le> length pdfBytes))"

text \<open>
  Modelled from the spec: the Keypair invariant of section 3 for the backend's RSA, the
  private key corresponds to the public key: what the one signs the other accepts.
\<close>

definition keys_correspond :: "primitives \<Rightarrow> Keypair \<Rightarrow> bool" where
  "keys_correspond pr kp =
     (\<forall>d. rsa_check pr (publicKey kp) d (rsa_sign pr (privateKey kp) d))"

text \<open>
  Modelled from the spec: the contract between the backend's Signer and its scan
  (sections 4.2 and 4.4, step 7). A document that ends with the update of a record has
  a trailer, and the scan finds that record, beginning where the update was appended.
\<close>

definition appended_record_found :: "primitives \<Rightarrow> bool" where
  "appended_record_found pr =
     (\<forall>c r. has_trailer pr (c @ incremental_update pr r) \<and>
            locate_record pr (c @ incremental_update pr r) = Some (length c, Some r))"

section \<open>Example data\<close>

text \<open>A page with a PDF selected in both tabs and a name typed, and two files.\<close>

definition blank_element :: element where
  "blank_element = \<lparr>classList = {}, contents = Text [], disabled = False, input_value = []\<rparr>"

definition hidden_element :: element where
  "hidden_element = blank_element\<lparr>classList := {''hidden''}\<rparr>"

definition example_bytes :: "byte list" where
  "example_bytes = [0x25, 0x50, 0x44, 0x46]"

definition example_pdf :: js_file where
  "example_pdf = \<lparr>file_name = ''contract.pdf'', file_type = ''application/pdf'',
                   file_size = 4, arrayBuffer = Inr example_bytes\<rparr>"

definition example_png :: js_file where
  "example_png = \<lparr>file_name = ''photo.png'', file_type = ''image/png'', file_size = 4,
                   arrayBuffer = Inr [0x89, 0x50, 0x4E, 0x47]\<rparr>"

definition example_page :: world where
  "example_page =
     \<lparr>state = \<lparr>hasKey = False, currentPublicKey = [], selectedFile = Some example_pdf,
               signedPdfData = None, verifySelectedFile = Some example_pdf,
               currentTab = ''sign-section''\<rparr>,
      elems = (\<lambda>n. blank_element)
        (signerNameInput := blank_element\<lparr>input_value := utf16 ''Alice''\<rparr>,
         modalOverlay := hidden_element, resultSection := hidden_element,
         verifyResult := hidden_element, verifySuccess := hidden_element,
         verifyError := hidden_element, verifyDetails := hidden_element,
         btnExportKey := hidden_element, keySection := hidden_element,
         signForm := hidden_element),
      parentElement = (\<lambda>n. None)
        (fileInfo := Some dropZone_el, verifyFileInfo := Some verifyDropZone),
      dropZoneContent = (\<lambda>n. None),
      invoked = [], timers = [], scrolledIntoView = []\<rparr>"

text \<open>The same page with a name of a space, a no-break space and an ideographic space.\<close>

definition blank_name_page :: world where
  "blank_name_page =
     upd_elem signerNameInput (\<lambda>e. e\<lparr>input_value := [0x0020, 0x00A0, 0x3000]\<rparr>) example_page"


definition unsigned_response :: VerifyPdfResponse where
  "unsigned_response = \<lparr>is_signed = False, signature_info = None, message = ''not signed''\<rparr>"


definition unsigned_backend :: "byte list \<Rightarrow> string + VerifyPdfResponse" where
  "unsigned_backend pdfBytes = Inr unsigned_response"

definition rejecting_backend :: "SignPdfRequest \<Rightarrow> string + SignPdfResponse" where
  "rejecting_backend request = Inl ''No key loaded''"


text \<open>
  An instance of the engine's parameters, small enough to evaluate. A field is written
  byte by byte, each byte after a 1, and closed by a 0; the update of a record is its
  six fields, reversed, so that the scan reads them from the end of the document. The
  hash is the identity and a signature is the key followed by the digest.
\<close>

fun toy_field :: "byte list \<Rightarrow> byte list" where
  "toy_field [] = [0]"
| "toy_field (b # bs) = 1 # b # toy_field bs"

fun toy_unfield :: "byte list \<Rightarrow> (byte list \<times> byte list) option" where
  "toy_unfield [] = None"
| "toy_unfield [t] = (if t = 0 then Some ([], []) else None)"
| "toy_unfield (t # b # rest) =
     (if t = 0 then Some ([], b # rest)
      else map_option (\<lambda>(f, r). (b # f, r)) (toy_unfield rest))"

fun toy_unfields :: "nat \<Rightarrow> byte list \<Rightarrow> (byte list list \<times> byte list) option" where
  "toy_unfields 0 xs = Some ([], xs)"
| "toy_unfields (Suc n) xs =
     (case toy_unfield xs of
        None \<Rightarrow> None
      | Some (f, r) \<Rightarrow> map_option (\<lambda>(fs, r'). (f # fs, r')) (toy_unfields n r))"

definition bytes_of :: "string \<Rightarrow> byte list" where
  "bytes_of s = map (\<lambda>c. of_nat (of_char c)) s"

definition string_of :: "byte list \<Rightarrow> string" where
  "string_of bs = map (\<lambda>b. char_of (unat b)) bs"

definition toy_update :: "SignatureRecord \<Rightarrow> byte list" where
  "toy_update r =
     rev (concat (map toy_field
       [bytes_of (signerName r), bytes_of (rec_timestamp r),
        (case rec_extra r of None \<Rightarrow> [] | Some e \<Rightarrow> 1 # bytes_of e),
        signatureBytes r, bytes_of (digestAlgorithm r), bytes_of (signatureAlgorithm r)]))"

definition toy_locate :: "byte list \<Rightarrow> (nat \<times> SignatureRecord option) option" where
  "toy_locate xs =
     (case toy_unfields 6 (rev xs) of
        Some ([n, t, e, s, d, a], rest) \<Rightarrow>
          Some (length rest,
                Some \<lparr>signerName = string_of n, rec_timestamp = string_of t,
                      rec_extra = (case e of [] \<Rightarrow> None | x # e' \<Rightarrow> Some (string_of e')),
                      signatureBytes = s, digestAlgorithm = string_of d,
                      signatureAlgorithm = string_of a\<rparr>)
      | _ \<Rightarrow> None)"

definition toy :: primitives where
  "toy = \<lparr>digest = (\<lambda>bs. bs), digest_id = ''identity'',
          rsa_sign = (\<lambda>k d. bytes_of k @ d),
          rsa_check = (\<lambda>k d s. s = bytes_of k @ d),
          signature_id = ''key-prefix'',
          has_trailer = (\<lambda>bs. bs \<noteq> []),
          locate_record = toy_locate,
          incremental_update = toy_update\<rparr>"

definition toy_keys :: Keypair where
  "toy_keys = \<lparr>publicKey = ''k'', privateKey = ''k''\<rparr>"






section \<open>What the string functions compute\<close>

lemma starts_with_iff: "starts_with s p \<longleftrightarrow> (\<exists>b. s = p @ b)"
  by (induction s p rule: starts_with.induct) auto

text \<open>\<open>includes_str s p\<close> holds when \<open>p\<close> occurs in \<open>s\<close> as a contiguous part.\<close>

lemma includes_str_iff: "includes_str s p \<longleftrightarrow> (\<exists>a b. s = a @ p @ b)"
proof (induction s)
  case Nil
  then show ?case by simp
next
  case (Cons d s)
  show ?case
  proof
    assume "includes_str (d # s) p"
    then consider "starts_with (d # s) p" | "includes_str s p" by auto
    then show "\<exists>a b. d # s = a @ p @ b"
    proof cases
      case 1
      then obtain b where "d # s = p @ b" using starts_with_iff by blast
      then have "d # s = [] @ p @ b" by simp
      then show ?thesis by blast
    next
      case 2
      then obtain a b where "s = a @ p @ b" using Cons.IH by blast
      then have "d # s = (d # a) @ p @ b" by simp
      then show ?thesis by blast
    qed
  next
    assume "\<exists>a b. d # s = a @ p @ b"
    then obtain a b where ab: "d # s = a @ p @ b" by blast
    show "includes_str (d # s) p"
    proof (cases a)
      case Nil
      with ab have "starts_with (d # s) p" using starts_with_iff by auto
      then show ?thesis by simp
    next
      case (Cons x a')
      with ab have "s = a' @ p @ b" by simp
      then have "includes_str s p" using Cons.IH by blast
      then show ?thesis by simp
    qed
  qed
qed

text \<open>A string trims to the empty string when it is empty or white space only.\<close>

lemma trim_empty_iff: "trim s = [] \<longleftrightarrow> (\<forall>c \<in> set s. is_space c)"
proof -
  have "(\<forall>x \<in> set (dropWhile is_space s). is_space x) \<longleftrightarrow> (\<forall>c \<in> set s. is_space c)"
    by (induction s) auto
  then show ?thesis
    by (simp add: trim_def dropWhile_eq_Nil_conv)
qed

section \<open>File sizes\<close>




















section \<open>Selecting a file\<close>

text \<open>
  Claim C9. For a file whose MIME type does not contain "pdf", \<open>handleFileSelect\<close> returns
  the world as it found it, whatever the callback: the callback is not run, and no
  displayed file info and no drop-zone content changes. So the change listener of a
  file picker changes nothing, and the drop listener does what it does before it looks
  at the files and no more, which is to take the drag-over mark off again. No error is
  shown.
\<close>

theorem non_pdf_file_ignored:
  assumes "\<not> includes_str (file_type f) ''pdf''"
  shows "handleFileSelect f onFileSelect onFileInfo fileNameEl fileSizeEl w = w \<and>
         on_change onFileSelect onFileInfo fileNameEl fileSizeEl (Some (f # fs)) w = w \<and>
         on_drop dz onFileSelect onFileInfo fileNameEl fileSizeEl (Some (f # fs)) w =
           on_dragleave dz w \<and>
         sign_zone_change (Some (f # fs)) w = w \<and>
         verify_zone_change (Some (f # fs)) w = w"
  using assms
  by (simp add: handleFileSelect_def on_change_def on_drop_def on_dragleave_def
      sign_zone_change_def verify_zone_change_def)

theorem non_pdf_file_ignored_witness:
  "\<not> includes_str (file_type example_png) ''pdf'' \<and>
   handleFileSelect example_png select_sign_file (Some fileInfo) (Some fileName) (Some fileSize)
     example_page = example_page \<and>
   sign_zone_change (Some [example_png]) example_page = example_page \<and>
   verify_zone_change (Some [example_png]) example_page = example_page"
proof -
  have png: "\<not> includes_str (file_type example_png) ''pdf''"
    by (simp add: example_png_def)
  from non_pdf_file_ignored [OF png] png show ?thesis
    by simp
qed

section \<open>Signing from the page\<close>

lemmas page_defs = seq_def upd_elem_def classList_add_def classList_remove_def
  classList_toggle_def set_textContent_def set_innerHTML_def set_disabled_def invoke_def
  scrollIntoView_def upd_state_def showModal_def hideModal_def showError_def
  showTemporarySuccess_def setButtonLoading_def resetButton_def

lemmas example_defs = example_page_def example_pdf_def example_bytes_def blank_element_def
  hidden_element_def

text \<open>
  Claim C3. When the signer name is empty, or white space only (any white space or
  line terminator that \<open>trim\<close> removes), \<open>signPdf\<close> stops at its
  guard: it does what \<open>showError\<close> does with the message asking for a name and a file
  and nothing else. No command is invoked, the \<open>state\<close> object (the signed document
  stored in it included) is as before, no element beside the three of the modal
  changes, and the modal shows the error. With such a name \<open>updateSignButton\<close> disables
  the sign button.
\<close>

theorem signPdf_empty_name:
  assumes \<open>trim (input_value (elems w signerNameInput)) = []\<close>
  shows \<open>signPdf backend w =
           showError modalOverlay modalTitle modalContent
             ''Please enter your name and select a PDF file.'' w \<and>
         invoked (signPdf backend w) = invoked w \<and>
         state (signPdf backend w) = state w \<and>
         contents (elems (signPdf backend w) modalTitle) = Text ''Error'' \<and>
         contents (elems (signPdf backend w) modalContent) =
           Html ''<p class="message error">Please enter your name and select a PDF file.</p>'' \<and>
         ''hidden'' \<notin> classList (elems (signPdf backend w) modalOverlay) \<and>
         (\<forall>n. n \<notin> {modalOverlay, modalTitle, modalContent} \<longrightarrow>
              elems (signPdf backend w) n = elems w n) \<and>
         disabled (elems (updateSignButton w) btnSign)\<close>
  using assms
  by (simp add: signPdf_def updateSignButton_def page_defs split: option.split)

theorem signPdf_empty_name_witness:
  "trim (input_value (elems blank_name_page signerNameInput)) = [] \<and>
   invoked (signPdf rejecting_backend blank_name_page) = [] \<and>
   signedPdfData (state (signPdf rejecting_backend blank_name_page)) = None \<and>
   contents (elems (signPdf rejecting_backend blank_name_page) modalTitle) =
     Text ''Error''"
proof -
  have blank: "trim (input_value (elems blank_name_page signerNameInput)) = []"
    by (simp add: blank_name_page_def upd_elem_def example_defs trim_def is_space_def)
  have "invoked blank_name_page = []" and "signedPdfData (state blank_name_page) = None"
    by (simp_all add: blank_name_page_def upd_elem_def example_defs)
  with signPdf_empty_name [OF blank, of rejecting_backend, THEN conjunct2] blank
  show ?thesis
    by simp
qed

text \<open>When it does not fail, \<open>signPdf\<close> invokes the command and stores the signed bytes.\<close>

lemma signPdf_success:
  assumes "\<not> sign_fails backend w"
  shows "\<exists>request response. backend request = Inr response \<and>
           invoked (signPdf backend w) = invoked w @ [Sign_pdf request] \<and>
           signedPdfData (state (signPdf backend w)) = Some (signed_pdf response)"
  using assms
  by (auto simp add: sign_fails_def signPdf_def sign_failed_def displaySignResult_def
      page_defs Let_def split: option.splits sum.splits)

text \<open>
  Claim C4. When an invocation of \<open>signPdf\<close> fails, at the guard, at reading the file or
  at the command, the \<open>state\<close> object is as before: the selected file, whose bytes were
  the input, and the signed document stored earlier keep their values. The error is
  reported in the modal; beside the modal's three elements only the sign button is
  written (it is reset), so no result is displayed.
\<close>

theorem signPdf_failure_no_effect:
  assumes "sign_fails backend w"
  shows "state (signPdf backend w) = state w \<and>
         contents (elems (signPdf backend w) modalTitle) = Text ''Error'' \<and>
         ''hidden'' \<notin> classList (elems (signPdf backend w) modalOverlay) \<and>
         (\<forall>n. n \<notin> {modalOverlay, modalTitle, modalContent, btnSign} \<longrightarrow>
              elems (signPdf backend w) n = elems w n) \<and>
         timers (signPdf backend w) = timers w \<and>
         scrolledIntoView (signPdf backend w) = scrolledIntoView w"
  using assms
  by (auto simp add: sign_fails_def signPdf_def sign_failed_def page_defs Let_def
      split: option.splits sum.splits)

theorem signPdf_failure_no_effect_witness:
  "sign_fails rejecting_backend example_page \<and>
   selectedFile (state (signPdf rejecting_backend example_page)) =
     Some example_pdf \<and>
   signedPdfData (state (signPdf rejecting_backend example_page)) = None \<and>
   contents (elems (signPdf rejecting_backend example_page) modalTitle) =
     Text ''Error''"
proof -
  have fails: "sign_fails rejecting_backend example_page"
    by (simp add: sign_fails_def rejecting_backend_def example_defs trim_def is_space_def
        utf16_def)
  have "selectedFile (state example_page) = Some example_pdf"
    and "signedPdfData (state example_page) = None"
    by (simp_all add: example_page_def)
  with signPdf_failure_no_effect [OF fails] fails show ?thesis
    by simp
qed

section \<open>Keys from the page\<close>

text \<open>
  Claim C10. When \<open>generateKeypair\<close> or \<open>importKey\<close> finds its command rejected, the
  \<open>state\<close> object is as before, \<open>hasKey\<close> and \<open>currentPublicKey\<close> with it; no element
  beside the three of the modal changes, so the key buttons, the key section and the
  sign form stay in the view they were in; and the modal shows the error message.
\<close>

theorem key_failure_keeps_state:
  \<open>state (generateKeypair (Inl e) w) = state w \<and>
   state (importKey privateKeyPem publicKeyPem (Inl e) w) = state w \<and>
   (\<forall>n. n \<notin> {modalOverlay, modalTitle, modalContent} \<longrightarrow>
        elems (generateKeypair (Inl e) w) n = elems w n \<and>
        elems (importKey privateKeyPem publicKeyPem (Inl e) w) n = elems w n) \<and>
   contents (elems (generateKeypair (Inl e) w) modalTitle) = Text ''Error'' \<and>
   contents (elems (generateKeypair (Inl e) w) modalContent) =
     Html (''<p class="message error">Failed to generate keypair: '' @ e @ ''</p>'') \<and>
   contents (elems (importKey privateKeyPem publicKeyPem (Inl e) w) modalTitle) = Text ''Error'' \<and>
   contents (elems (importKey privateKeyPem publicKeyPem (Inl e) w) modalContent) =
     Html (''<p class="message error">Failed to import key: '' @ e @ ''</p>'') \<and>
   ''hidden'' \<notin> classList (elems (generateKeypair (Inl e) w) modalOverlay) \<and>
   ''hidden'' \<notin> classList (elems (importKey privateKeyPem publicKeyPem (Inl e) w) modalOverlay) \<and>
   timers (generateKeypair (Inl e) w) = timers w \<and>
   timers (importKey privateKeyPem publicKeyPem (Inl e) w) = timers w\<close>
  by (simp add: generateKeypair_def importKey_def page_defs)

theorem key_failure_keeps_state_witness:
  "hasKey (state (generateKeypair (Inl ''no random source'') example_page)) = False \<and>
   currentPublicKey (state (importKey ''A'' ''B'' (Inl ''key mismatch'') example_page)) = [] \<and>
   elems (generateKeypair (Inl ''no random source'') example_page) keySection =
     hidden_element \<and>
   elems (importKey ''A'' ''B'' (Inl ''key mismatch'') example_page) btnGenerateKey =
     blank_element"
proof -
  have "hasKey (state example_page) = False" and "currentPublicKey (state example_page) = []"
    and "elems example_page keySection = hidden_element"
    and "elems example_page btnGenerateKey = blank_element"
    by (simp_all add: example_page_def)
  with key_failure_keeps_state [of "''no random source''" example_page]
    key_failure_keeps_state [of "''key mismatch''" example_page "''A''" "''B''"]
  show ?thesis
    by simp
qed

section \<open>Verifying from the page\<close>

lemma verifyPdf_state: "state (verifyPdf backend w) = state w"
  by (simp add: verifyPdf_def verify_failed_def show_verification_def page_defs Let_def
      split: option.splits sum.splits bool.splits)

lemma verifyPdf_elems:
  assumes "verifySelectedFile (state w1) = verifySelectedFile (state w2)"
    and "elems w1 = elems w2"
  shows "elems (verifyPdf backend w1) = elems (verifyPdf backend w2)"
  using assms
  by (simp add: verifyPdf_def verify_failed_def show_verification_def page_defs Let_def
      split: option.splits sum.splits bool.splits)

section \<open>The engine\<close>

lemma toy_unfield_field: "toy_unfield (toy_field f @ rest) = Some (f, rest)"
proof (induction f)
  case Nil
  then show ?case by (cases rest) simp_all
next
  case (Cons b f)
  then show ?case by simp
qed

lemma toy_unfields_fields:
  "toy_unfields (length fs) (concat (map toy_field fs) @ rest) = Some (fs, rest)"
  by (induction fs) (simp_all add: toy_unfield_field)

lemma string_of_bytes_of: "string_of (bytes_of s) = s"
proof -
  have "char_of (unat (of_nat (of_char c) :: byte)) = c" for c :: char
  proof -
    have "(of_char c :: nat) < 256" by simp
    then have "unat (of_nat (of_char c) :: byte) = of_char c"
      by (simp add: unat_of_nat)
    then show ?thesis by simp
  qed
  then show ?thesis by (simp add: string_of_def bytes_of_def comp_def map_idI)
qed

lemma toy_locate_update: "toy_locate (c @ toy_update r) = Some (length c, Some r)"
proof -
  let ?fs = "[bytes_of (signerName r), bytes_of (rec_timestamp r),
        (case rec_extra r of None \<Rightarrow> [] | Some e \<Rightarrow> 1 # bytes_of e),
        signatureBytes r, bytes_of (digestAlgorithm r), bytes_of (signatureAlgorithm r)]"
  have len: "length ?fs = 6" by simp
  have rev_eq: "rev (c @ toy_update r) = concat (map toy_field ?fs) @ rev c"
    by (simp add: toy_update_def)
  have "toy_unfields (length ?fs) (concat (map toy_field ?fs) @ rev c) = Some (?fs, rev c)"
    by (rule toy_unfields_fields)
  then have parsed: "toy_unfields 6 (rev (c @ toy_update r)) = Some (?fs, rev c)"
    by (simp only: len rev_eq)
  show ?thesis
    unfolding toy_locate_def parsed
    by (cases r) (simp add: string_of_bytes_of split: option.splits)
qed

lemma toy_field_nonempty: "toy_field f \<noteq> []"
  by (cases f) simp_all

lemma toy_update_nonempty: "toy_update r \<noteq> []"
  by (simp add: toy_update_def toy_field_nonempty)

lemma toy_appended_record_found: "appended_record_found toy"
  by (simp add: appended_record_found_def toy_def toy_locate_update toy_update_nonempty)

lemma toy_keys_correspond: "keys_correspond toy toy_keys"
  by (simp add: keys_correspond_def toy_def toy_keys_def)

lemma toy_locate_example: "toy_locate example_bytes = None"
  by (simp add: toy_locate_def example_bytes_def eval_nat_numeral)

lemma toy_valid_example: "valid_pdf toy example_bytes"
  by (simp add: valid_pdf_def toy_def toy_locate_example) (simp add: example_bytes_def)

lemma computeRange_valid:
  assumes "valid_pdf pr P"
  shows "\<exists>c. computeRange pr P = Inr c"
  using assms by (auto simp add: valid_pdf_def computeRange_def split: option.splits)

lemma computeRange_appended:
  assumes "appended_record_found pr"
  shows "computeRange pr (c @ incremental_update pr r) = Inr c"
  using assms by (simp add: appended_record_found_def computeRange_def)

lemma sign_canonical:
  assumes "computeRange pr P = Inr c" and "N \<noteq> []"
  shows "sign pr (Some kp) now P N e =
           Inr \<lparr>signedPdfBytes = c @ incremental_update pr (new_record pr kp now c N e),
                signatureInfo = new_record pr kp now c N e\<rparr>"
  using assms by (simp add: sign_def Let_def)

lemma verify_appended:
  assumes "appended_record_found pr"
    and "digestAlgorithm r = digest_id pr" and "signatureAlgorithm r = signature_id pr"
  shows "verify pr keyStore (c @ incremental_update pr r) = check_signature pr keyStore c r"
proof -
  have "locate_record pr (c @ incremental_update pr r) = Some (length c, Some r)"
    using assms(1) by (simp add: appended_record_found_def)
  then show ?thesis
    using assms by (simp add: verify_def computeRange_appended)
qed

lemma new_record_simps:
  "signerName (new_record pr kp now c N e) = N"
  "digestAlgorithm (new_record pr kp now c N e) = digest_id pr"
  "signatureAlgorithm (new_record pr kp now c N e) = signature_id pr"
  "signatureBytes (new_record pr kp now c N e) = rsa_sign pr (privateKey kp) (digest pr c)"
  by (simp_all add: new_record_def)

lemma check_own_signature:
  assumes "keys_correspond pr kp"
  shows "check_signature pr (Some kp) c (new_record pr kp now c N e) =
           Inr \<lparr>isSigned = True, sig_record = Some (new_record pr kp now c N e),
                result_message = ''valid''\<rparr>"
  using assms by (simp add: check_signature_def keys_correspond_def new_record_simps)

lemma check_signature_record:
  "\<exists>v. check_signature pr (Some kp) c r = Inr v \<and> sig_record v = Some r"
  by (simp add: check_signature_def)

lemma check_signature_public:
  assumes "map_option publicKey ks1 = map_option publicKey ks2"
  shows "check_signature pr ks1 c r = check_signature pr ks2 c r"
  using assms by (cases ks1; cases ks2) (simp_all add: check_signature_def)




text \<open>
  Claim C1. With a keypair resident whose keys correspond, and a document format in
  which the scan finds the update that was appended, for every valid PDF byte sequence
  \<open>P\<close>, every non-empty signer name \<open>N\<close> and every extra text, \<open>sign\<close> succeeds and
  \<open>verify\<close> of the signed bytes reports \<open>isSigned\<close>, with the record \<open>sign\<close> returned and
  the message "valid".
\<close>

theorem sign_then_verify:
  assumes "keys_correspond pr kp" and "appended_record_found pr"
    and "valid_pdf pr P" and "N \<noteq> []"
  shows "\<exists>d. sign pr (Some kp) now P N extra' = Inr d \<and>
             verify pr (Some kp) (signedPdfBytes d) =
               Inr \<lparr>isSigned = True, sig_record = Some (signatureInfo d),
                    result_message = ''valid''\<rparr>"
proof -
  obtain c where c: "computeRange pr P = Inr c"
    using computeRange_valid [OF assms(3)] by blast
  let ?r = "new_record pr kp now c N extra'"
  have "verify pr (Some kp) (c @ incremental_update pr ?r) =
      Inr \<lparr>isSigned = True, sig_record = Some ?r, result_message = ''valid''\<rparr>"
    by (simp add: verify_appended [OF assms(2)] new_record_simps
        check_own_signature [OF assms(1)])
  then show ?thesis
    by (simp add: sign_canonical [OF c assms(4)])
qed

theorem sign_then_verify_witness:
  "\<exists>d. sign toy (Some toy_keys) ''2026-01-01T00:00:00Z'' example_bytes ''Alice'' None = Inr d \<and>
       verify toy (Some toy_keys) (signedPdfBytes d) =
         Inr \<lparr>isSigned = True, sig_record = Some (signatureInfo d),
              result_message = ''valid''\<rparr>"
proof -
  have "''Alice'' \<noteq> []" by simp
  then show ?thesis
    by (rule sign_then_verify [OF toy_keys_correspond toy_appended_record_found
          toy_valid_example])
qed

text \<open>
  Claim C5. For every byte sequence in which no signature record is found, \<open>verify\<close>
  returns a result, not an error: \<open>isSigned\<close> false, no record, the message "not signed",
  whatever the key store holds. Given that response, \<open>verifyPdf\<close> shows the message in
  the error panel of the verify tab and leaves the error modal as it was.
\<close>

theorem unsigned_reported_not_signed:
  assumes "locate_record pr P = None"
    and "verifySelectedFile (state w) = Some f" and "arrayBuffer f = Inr P"
    and "backend P = Inr \<lparr>is_signed = False, signature_info = None, message = ''not signed''\<rparr>"
  shows "verify pr keyStore P =
           Inr \<lparr>isSigned = False, sig_record = None, result_message = ''not signed''\<rparr> \<and>
         contents (elems (verifyPdf backend w) verifyErrorMessage) = Text ''not signed'' \<and>
         ''hidden'' \<notin> classList (elems (verifyPdf backend w) verifyError) \<and>
         ''hidden'' \<in> classList (elems (verifyPdf backend w) verifyDetails) \<and>
         elems (verifyPdf backend w) modalOverlay = elems w modalOverlay \<and>
         elems (verifyPdf backend w) modalTitle = elems w modalTitle \<and>
         elems (verifyPdf backend w) modalContent = elems w modalContent"
  using assms
  by (simp add: verify_def verifyPdf_def show_verification_def page_defs Let_def)

theorem unsigned_reported_not_signed_witness:
  "locate_record toy example_bytes = None \<and>
   verify toy None example_bytes =
     Inr \<lparr>isSigned = False, sig_record = None, result_message = ''not signed''\<rparr> \<and>
   contents (elems (verifyPdf unsigned_backend example_page)
     verifyErrorMessage) = Text ''not signed'' \<and>
   elems (verifyPdf unsigned_backend example_page) modalOverlay =
     hidden_element"
proof -
  have none: "locate_record toy example_bytes = None"
    by (simp add: toy_def toy_locate_example)
  have selected: "verifySelectedFile (state example_page) = Some example_pdf"
    by (simp add: example_page_def)
  have read: "arrayBuffer example_pdf = Inr example_bytes"
    by (simp add: example_pdf_def)
  have answer: "unsigned_backend example_bytes =
      Inr \<lparr>is_signed = False, signature_info = None, message = ''not signed''\<rparr>"
    by (simp add: unsigned_backend_def unsigned_response_def)
  have "elems example_page modalOverlay = hidden_element"
    by (simp add: example_page_def)
  with unsigned_reported_not_signed
    [where backend = unsigned_backend and keyStore = None, OF none selected read answer] none
  show ?thesis
    by simp
qed

text \<open>
  Claim C6. In a document format in which the scan finds the update that was appended,
  signing an already signed document again, with a non-empty name \<open>N2\<close>, gives a
  document that carries the new record in place of the earlier one: both signed
  documents are the same canonical content followed by the update of their own record,
  and \<open>verify\<close> of the second reports the record of the second signing, whose signer is
  \<open>N2\<close>, under any resident key, and as valid under the key it was signed with.
\<close>

theorem resign_replaces_record:
  assumes "appended_record_found pr" and "keys_correspond pr kp2"
    and "valid_pdf pr P" and "N \<noteq> []" and "N2 \<noteq> []"
  shows "\<exists>d d2 c.
           sign pr (Some kp) now P N extra' = Inr d \<and>
           sign pr (Some kp2) now2 (signedPdfBytes d) N2 extra2 = Inr d2 \<and>
           signerName (signatureInfo d2) = N2 \<and>
           signedPdfBytes d = c @ incremental_update pr (signatureInfo d) \<and>
           signedPdfBytes d2 = c @ incremental_update pr (signatureInfo d2) \<and>
           verify pr (Some kp2) (signedPdfBytes d2) =
             Inr \<lparr>isSigned = True, sig_record = Some (signatureInfo d2),
                  result_message = ''valid''\<rparr> \<and>
           (\<exists>v. verify pr (Some kp3) (signedPdfBytes d2) = Inr v \<and>
                sig_record v = Some (signatureInfo d2))"
proof -
  obtain c where c: "computeRange pr P = Inr c"
    using computeRange_valid [OF assms(3)] by blast
  let ?r = "new_record pr kp now c N extra'"
  let ?d = "\<lparr>signedPdfBytes = c @ incremental_update pr ?r, signatureInfo = ?r\<rparr>"
  let ?r2 = "new_record pr kp2 now2 c N2 extra2"
  let ?d2 = "\<lparr>signedPdfBytes = c @ incremental_update pr ?r2, signatureInfo = ?r2\<rparr>"
  have first: "sign pr (Some kp) now P N extra' = Inr ?d"
    by (rule sign_canonical [OF c assms(4)])
  have "computeRange pr (signedPdfBytes ?d) = Inr c"
    by (simp add: computeRange_appended [OF assms(1)])
  then have second: "sign pr (Some kp2) now2 (signedPdfBytes ?d) N2 extra2 = Inr ?d2"
    by (rule sign_canonical [OF _ assms(5)])
  have own: "verify pr (Some kp2) (signedPdfBytes ?d2) =
      Inr \<lparr>isSigned = True, sig_record = Some ?r2, result_message = ''valid''\<rparr>"
    by (simp add: verify_appended [OF assms(1)] new_record_simps
        check_own_signature [OF assms(2)])
  have other: "\<exists>v. verify pr (Some kp3) (signedPdfBytes ?d2) = Inr v \<and> sig_record v = Some ?r2"
    by (simp add: verify_appended [OF assms(1)] new_record_simps check_signature_record)
  have "sign pr (Some kp) now P N extra' = Inr ?d \<and>
        sign pr (Some kp2) now2 (signedPdfBytes ?d) N2 extra2 = Inr ?d2 \<and>
        signerName (signatureInfo ?d2) = N2 \<and>
        signedPdfBytes ?d = c @ incremental_update pr (signatureInfo ?d) \<and>
        signedPdfBytes ?d2 = c @ incremental_update pr (signatureInfo ?d2) \<and>
        verify pr (Some kp2) (signedPdfBytes ?d2) =
          Inr \<lparr>isSigned = True, sig_record = Some (signatureInfo ?d2),
               result_message = ''valid''\<rparr> \<and>
        (\<exists>v. verify pr (Some kp3) (signedPdfBytes ?d2) = Inr v \<and>
             sig_record v = Some (signatureInfo ?d2))"
    using first second own other by (simp add: new_record_simps)
  then show ?thesis
    by (intro exI)
qed

theorem resign_replaces_record_witness:
  "\<exists>d d2 c.
     sign toy (Some toy_keys) ''2026-01-01T00:00:00Z'' example_bytes ''Alice'' None = Inr d \<and>
     sign toy (Some toy_keys) ''2026-02-02T00:00:00Z'' (signedPdfBytes d) ''Bob''
       (Some ''second'') = Inr d2 \<and>
     signerName (signatureInfo d2) = ''Bob'' \<and>
     signedPdfBytes d = c @ incremental_update toy (signatureInfo d) \<and>
     signedPdfBytes d2 = c @ incremental_update toy (signatureInfo d2) \<and>
     verify toy (Some toy_keys) (signedPdfBytes d2) =
       Inr \<lparr>isSigned = True, sig_record = Some (signatureInfo d2),
            result_message = ''valid''\<rparr> \<and>
     (\<exists>v. verify toy (Some \<lparr>publicKey = ''other'', privateKey = ''other''\<rparr>)
            (signedPdfBytes d2) = Inr v \<and>
          sig_record v = Some (signatureInfo d2))"
proof -
  have "''Alice'' \<noteq> []" and "''Bob'' \<noteq> []"
    by simp_all
  then show ?thesis
    by (rule resign_replaces_record [OF toy_appended_record_found toy_keys_correspond
          toy_valid_example])
qed

end
